theory Spec2Isabelle
  imports Main "HOL-Library.Word"
begin

unbundle bit_operations_syntax

section \<open>The PermafrostRiskFHE contract\<close>

text \<open>
  A shallow embedding of the Solidity contract \<open>PermafrostRiskFHE\<close>
  (the second half of \<open>src/frontend/web/src/App.tsx\<close>, lines 793 to 949).
  Storage is a record that every function takes and returns; a \<open>require\<close>, a
  \<open>revert\<close> and a panic are the \<open>Inl\<close> branch of a sum, and a reverted call
  leaves the storage as it was.
\<close>

subsection \<open>Value types\<close>

type_synonym uint256 = "256 word"
type_synonym uint32 = "32 word"

text \<open>\<open>int32\<close> is a 32-bit word read in two's complement (\<open>sint\<close>, \<open><s\<close>).\<close>
type_synonym int32 = "32 word"

text \<open>\<open>euint32\<close> is a user-defined value type over \<open>bytes32\<close>: an opaque handle.\<close>
type_synonym euint32 = "256 word"

type_synonym address = "160 word"
type_synonym bytes = "8 word list"

subsection \<open>Structs, events and storage\<close>

text \<open>The field \<open>id\<close> of \<open>EncryptedMeasurement\<close> is \<open>id_m\<close> here.\<close>

record EncryptedMeasurement =
  id_m :: uint256
  encryptedTemperature :: euint32
  encryptedGasLevel :: euint32
  timestamp :: uint256

record DecryptedMeasurement =
  temperature :: int32
  gasLevel :: int32
  isDecrypted :: bool

datatype event =
    MeasurementSubmitted uint256 uint256
  | DecryptionRequested uint256
  | MeasurementDecrypted uint256

text \<open>
  The state variables of the contract. A Solidity mapping is total: a key that was never
  written reads as the zero value of the value type, so each mapping is a function.
  \<open>events\<close> is the log of the events emitted so far.
\<close>

record storage =
  measurementCount :: uint256
  encryptedMeasurements :: "uint256 \<Rightarrow> EncryptedMeasurement"
  decryptedMeasurements :: "uint256 \<Rightarrow> DecryptedMeasurement"
  encryptedZoneRisk :: "string \<Rightarrow> euint32"
  zoneList :: "string list"
  requestToMeasurementId :: "uint256 \<Rightarrow> uint256"
  events :: "event list"

text \<open>The storage of a freshly deployed contract: every slot is zero.\<close>

definition init_storage :: storage where
  "init_storage =
     \<lparr> measurementCount = 0,
       encryptedMeasurements =
         (\<lambda>_. \<lparr> id_m = 0, encryptedTemperature = 0, encryptedGasLevel = 0, timestamp = 0 \<rparr>),
       decryptedMeasurements = (\<lambda>_. \<lparr> temperature = 0, gasLevel = 0, isDecrypted = False \<rparr>),
       encryptedZoneRisk = (\<lambda>_. 0),
       zoneList = [],
       requestToMeasurementId = (\<lambda>_. 0),
       events = [] \<rparr>"

subsection \<open>Errors\<close>

text \<open>
  One constructor per way a call can revert:
  \<^item> \<open>AlreadyDecrypted\<close>: \<open>require(..., "Already decrypted")\<close>;
  \<^item> \<open>InvalidRequest\<close>: \<open>require(measurementId != 0, "Invalid request")\<close>, the
    rejection of a request identifier with no recorded target;
  \<^item> \<open>ZoneNotFound\<close>: \<open>require(..., "Zone not found")\<close> and \<open>revert("Zone not found")\<close>;
  \<^item> \<open>InvalidProof\<close>: \<open>FHE.checkSignatures\<close> reverts;
  \<^item> \<open>DecodeFailure\<close>: \<open>abi.decode\<close> reverts;
  \<^item> \<open>IndexOutOfBounds\<close>: the panic of \<open>results[0]\<close> or \<open>results[1]\<close>;
  \<^item> \<open>ArithmeticOverflow\<close>: the panic of checked \<open>uint256\<close> arithmetic (Solidity 0.8);
  \<^item> \<open>LibraryRevert\<close>: \<open>FHE.add\<close> or \<open>FHE.requestDecryption\<close> reverts, as the
    library does when its access control refuses a handle.
\<close>

datatype error =
    AlreadyDecrypted
  | InvalidRequest
  | ZoneNotFound
  | InvalidProof
  | DecodeFailure
  | IndexOutOfBounds
  | ArithmeticOverflow
  | LibraryRevert

subsection \<open>What the contract imports\<close>

text \<open>
  The FHE library, \<open>keccak256\<close> and \<open>abi.decode\<close> are not part of the contract's
  source; they are parameters of the model.
  \<^item> \<open>checkSignatures requestId cleartexts proof\<close> is \<open>True\<close> when
    \<open>FHE.checkSignatures\<close> returns and \<open>False\<close> when it reverts;
  \<^item> \<open>decode_int32_array\<close> and \<open>decode_uint32\<close> are \<open>abi.decode\<close> at the types
    \<open>int32[]\<close> and \<open>uint32\<close>, \<open>None\<close> when it reverts;
  \<^item> \<open>keccak256_packed zone\<close> is \<open>keccak256(abi.encodePacked(zone))\<close>;
  \<^item> \<open>isInitialized\<close> and \<open>asEuint32\<close> are \<open>FHE.isInitialized\<close> and
    \<open>FHE.asEuint32\<close> on handles;
  \<^item> \<open>fhe_add a b\<close> is \<open>FHE.add(a, b)\<close>: the handle of the sum, \<open>None\<close> when the
    call reverts;
  \<^item> \<open>requestDecryption handles selector next\<close> is
    \<open>FHE.requestDecryption(handles, selector)\<close>: the request identifier it returns,
    \<open>None\<close> when the call reverts. The library numbers the requests with a counter of
    its own; \<open>next\<close> is the value of that counter at the call, and it comes with the
    transaction.
  The contract never calls \<open>FHE.allowThis\<close> or \<open>FHE.allow\<close>, so whether the library
  accepts a handle is decided by the engine alone.
\<close>

text \<open>\<open>this.decryptMeasurement.selector\<close> and \<open>this.decryptZoneRisk.selector\<close>.\<close>

datatype selector = DecryptMeasurementSelector | DecryptZoneRiskSelector

record engine =
  checkSignatures :: "uint256 \<Rightarrow> bytes \<Rightarrow> bytes \<Rightarrow> bool"
  decode_int32_array :: "bytes \<Rightarrow> int32 list option"
  decode_uint32 :: "bytes \<Rightarrow> uint32 option"
  keccak256_packed :: "string \<Rightarrow> uint256"
  isInitialized :: "euint32 \<Rightarrow> bool"
  asEuint32 :: "uint32 \<Rightarrow> euint32"
  fhe_add :: "euint32 \<Rightarrow> euint32 \<Rightarrow> euint32 option"
  requestDecryption :: "256 word list \<Rightarrow> selector \<Rightarrow> uint256 \<Rightarrow> uint256 option"

text \<open>What a call sees of its transaction: \<open>msg.sender\<close> and \<open>block.timestamp\<close>.\<close>

record call_context =
  msg_sender :: address
  block_timestamp :: uint256

subsection \<open>The functions of the contract\<close>

text \<open>\<open>modifier onlyResearcher(uint256 measurementId) { _; }\<close>: the body, and nothing else.\<close>

definition onlyResearcher :: "call_context \<Rightarrow> uint256 \<Rightarrow> (error + storage) \<Rightarrow> (error + storage)" where
  "onlyResearcher ctx measurementId body = body"

definition submitEncryptedMeasurement ::
  "call_context \<Rightarrow> euint32 \<Rightarrow> euint32 \<Rightarrow> storage \<Rightarrow> error + storage" where
  "submitEncryptedMeasurement ctx encTemperature encGasLevel s =
     (if measurementCount s = - 1 then Inl ArithmeticOverflow
      else
        let newId = measurementCount s + 1 in
        Inr (s\<lparr> measurementCount := newId,
                encryptedMeasurements := (encryptedMeasurements s)
                  (newId := \<lparr> id_m = newId,
                              encryptedTemperature = encTemperature,
                              encryptedGasLevel = encGasLevel,
                              timestamp = block_timestamp ctx \<rparr>),
                decryptedMeasurements := (decryptedMeasurements s)
                  (newId := \<lparr> temperature = 0, gasLevel = 0, isDecrypted = False \<rparr>),
                events := events s @ [MeasurementSubmitted newId (block_timestamp ctx)] \<rparr>))"

text \<open>\<open>FHE.toBytes32\<close> unwraps a handle.\<close>

definition toBytes32 :: "euint32 \<Rightarrow> 256 word" where
  "toBytes32 h = h"

definition requestMeasurementDecryption ::
  "engine \<Rightarrow> call_context \<Rightarrow> uint256 \<Rightarrow> uint256 \<Rightarrow> storage \<Rightarrow> error + storage" where
  "requestMeasurementDecryption eng ctx measurementId next s =
     onlyResearcher ctx measurementId
       (let measurement = encryptedMeasurements s measurementId in
        if isDecrypted (decryptedMeasurements s measurementId) then Inl AlreadyDecrypted
        else
          let ciphertexts = [toBytes32 (encryptedTemperature measurement),
                             toBytes32 (encryptedGasLevel measurement)]
          in case requestDecryption eng ciphertexts DecryptMeasurementSelector next of
               None \<Rightarrow> Inl LibraryRevert
             | Some reqId \<Rightarrow>
                 Inr (s\<lparr> requestToMeasurementId :=
                            (requestToMeasurementId s)(reqId := measurementId),
                          events := events s @ [DecryptionRequested measurementId] \<rparr>))"

definition assignZone :: "int32 \<Rightarrow> int32 \<Rightarrow> string" where
  "assignZone temperature' gasLevel' =
     (if temperature' <s - 2 then ''LowRisk''
      else if temperature' <s 2 then ''MediumRisk''
      else ''HighRisk'')"

text \<open>
  The last block of \<open>decryptMeasurement\<close> (lines 883 to 890): create the bucket of
  \<open>zone\<close> when its handle is not initialised, then add one to it. \<open>None\<close> when
  \<open>FHE.add\<close> reverts.
\<close>

definition contribute :: "engine \<Rightarrow> string \<Rightarrow> storage \<Rightarrow> storage option" where
  "contribute eng zone s =
     (let s1 = (if \<not> isInitialized eng (encryptedZoneRisk s zone)
                then s\<lparr> encryptedZoneRisk := (encryptedZoneRisk s)(zone := asEuint32 eng 0),
                        zoneList := zoneList s @ [zone] \<rparr>
                else s)
      in case fhe_add eng (encryptedZoneRisk s1 zone) (asEuint32 eng 1) of
           None \<Rightarrow> None
         | Some added \<Rightarrow>
             Some (s1\<lparr> encryptedZoneRisk := (encryptedZoneRisk s1)(zone := added) \<rparr>))"

definition decryptMeasurement ::
  "engine \<Rightarrow> uint256 \<Rightarrow> bytes \<Rightarrow> bytes \<Rightarrow> storage \<Rightarrow> error + storage" where
  "decryptMeasurement eng requestId cleartexts proof' s =
     (let measurementId = requestToMeasurementId s requestId in
      if measurementId = 0 then Inl InvalidRequest
      else if \<not> checkSignatures eng requestId cleartexts proof' then Inl InvalidProof
      else
        case decode_int32_array eng cleartexts of
          None \<Rightarrow> Inl DecodeFailure
        | Some results \<Rightarrow>
            (case results of
               r0 # r1 # _ \<Rightarrow>
                 let s1 = s\<lparr> decryptedMeasurements := (decryptedMeasurements s)
                              (measurementId :=
                                 \<lparr> temperature = r0, gasLevel = r1, isDecrypted = True \<rparr>) \<rparr>;
                     zone = assignZone r0 r1
                 in (case contribute eng zone s1 of
                       None \<Rightarrow> Inl LibraryRevert
                     | Some s2 \<Rightarrow>
                         Inr (s2\<lparr> events := events s2 @ [MeasurementDecrypted measurementId] \<rparr>))
             | _ \<Rightarrow> Inl IndexOutOfBounds))"

definition getDecryptedMeasurement :: "storage \<Rightarrow> uint256 \<Rightarrow> int32 \<times> int32 \<times> bool" where
  "getDecryptedMeasurement s measurementId =
     (let m = decryptedMeasurements s measurementId
      in (temperature m, gasLevel m, isDecrypted m))"

definition getEncryptedZoneRisk :: "storage \<Rightarrow> string \<Rightarrow> euint32" where
  "getEncryptedZoneRisk s zone = encryptedZoneRisk s zone"

definition bytes32ToUint :: "256 word \<Rightarrow> uint256" where
  "bytes32ToUint b = b"

definition requestZoneRiskDecryption ::
  "engine \<Rightarrow> string \<Rightarrow> uint256 \<Rightarrow> storage \<Rightarrow> error + storage" where
  "requestZoneRiskDecryption eng zone next s =
     (let risk = encryptedZoneRisk s zone in
      if \<not> isInitialized eng risk then Inl ZoneNotFound
      else
        case requestDecryption eng [toBytes32 risk] DecryptZoneRiskSelector next of
          None \<Rightarrow> Inl LibraryRevert
        | Some reqId \<Rightarrow>
            Inr (s\<lparr> requestToMeasurementId := (requestToMeasurementId s)
                       (reqId := bytes32ToUint (keccak256_packed eng zone)) \<rparr>))"

text \<open>
  The loop of \<open>getZoneFromHash\<close> over \<open>zoneList\<close> from index 0: the first label whose
  hash is \<open>hash\<close>, and \<open>revert("Zone not found")\<close> after the last one.
\<close>

fun getZoneFromHash_loop :: "engine \<Rightarrow> string list \<Rightarrow> uint256 \<Rightarrow> error + string" where
  "getZoneFromHash_loop eng [] hash = Inl ZoneNotFound"
| "getZoneFromHash_loop eng (z # zs) hash =
     (if bytes32ToUint (keccak256_packed eng z) = hash then Inr z
      else getZoneFromHash_loop eng zs hash)"

definition getZoneFromHash :: "engine \<Rightarrow> storage \<Rightarrow> uint256 \<Rightarrow> error + string" where
  "getZoneFromHash eng s hash = getZoneFromHash_loop eng (zoneList s) hash"

definition decryptZoneRisk ::
  "engine \<Rightarrow> uint256 \<Rightarrow> bytes \<Rightarrow> bytes \<Rightarrow> storage \<Rightarrow> error + storage" where
  "decryptZoneRisk eng requestId cleartexts proof' s =
     (let zoneHash = requestToMeasurementId s requestId in
      case getZoneFromHash eng s zoneHash of
        Inl e \<Rightarrow> Inl e
      | Inr zone \<Rightarrow>
          if \<not> checkSignatures eng requestId cleartexts proof' then Inl InvalidProof
          else
            (case decode_uint32 eng cleartexts of
               None \<Rightarrow> Inl DecodeFailure
             | Some riskValue \<Rightarrow> Inr s))"

subsection \<open>Transactions\<close>

text \<open>
  The state-changing entry points. The two requesting calls carry the value of the
  library's request counter.
\<close>

datatype call =
    SubmitEncryptedMeasurement euint32 euint32
  | RequestMeasurementDecryption uint256 uint256
  | DecryptMeasurement uint256 bytes bytes
  | RequestZoneRiskDecryption string uint256
  | DecryptZoneRisk uint256 bytes bytes

fun exec :: "engine \<Rightarrow> call_context \<Rightarrow> call \<Rightarrow> storage \<Rightarrow> error + storage" where
  "exec eng ctx (SubmitEncryptedMeasurement t g) s = submitEncryptedMeasurement ctx t g s"
| "exec eng ctx (RequestMeasurementDecryption m r) s = requestMeasurementDecryption eng ctx m r s"
| "exec eng ctx (DecryptMeasurement r c p) s = decryptMeasurement eng r c p s"
| "exec eng ctx (RequestZoneRiskDecryption z r) s = requestZoneRiskDecryption eng z r s"
| "exec eng ctx (DecryptZoneRisk r c p) s = decryptZoneRisk eng r c p s"

text \<open>A transaction that reverts changes nothing.\<close>

definition transact :: "engine \<Rightarrow> call_context \<times> call \<Rightarrow> storage \<Rightarrow> storage" where
  "transact eng tx s = (case exec eng (fst tx) (snd tx) s of Inl e \<Rightarrow> s | Inr s' \<Rightarrow> s')"

fun run :: "engine \<Rightarrow> (call_context \<times> call) list \<Rightarrow> storage \<Rightarrow> storage" where
  "run eng [] s = s"
| "run eng (tx # txs) s = run eng txs (transact eng tx s)"

subsection \<open>Predicates used in the statements\<close>

text \<open>
  A measurement record exists for \<open>i\<close> when a submission assigned it: identifiers are
  handed out from 1 up to \<open>measurementCount\<close>.
\<close>

definition created :: "storage \<Rightarrow> uint256 \<Rightarrow> bool" where
  "created s i = (0 < i \<and> i \<le> measurementCount s)"






text \<open>Two calls agree in everything but the caller.\<close>

definition same_but_caller :: "call_context \<times> call \<Rightarrow> call_context \<times> call \<Rightarrow> bool" where
  "same_but_caller tx tx' =
     (snd tx = snd tx' \<and> block_timestamp (fst tx) = block_timestamp (fst tx'))"

subsection \<open>An engine and histories for concrete runs\<close>

text \<open>
  A stand-in for the imported operations, used where a statement is evaluated on concrete
  calls. A handle is its plaintext with bit 32 set (so never zero); a proof verifies when
  it is not empty; the cleartext bytes decode one element per byte, sign-extended. The
  hash is Keccak-256 on the three labels that \<open>assignZone\<close> returns. Every call into
  the library returns.
\<close>

definition demo_tag :: euint32 where
  "demo_tag = push_bit 32 1"

definition demo_keccak :: "string \<Rightarrow> uint256" where
  "demo_keccak z =
     (if z = ''LowRisk''
        then 0x7391bc9911dfd703a7f6fe281d85770c1de091387e63f089a0e496085aa30428
      else if z = ''MediumRisk''
        then 0x57c80ed4a8ba3a4bd210ffd1f769b56f962e8b82f7b8d702533968356801c5c2
      else if z = ''HighRisk''
        then 0x92aae4c789fb4429f78cc2a911f8c1d9b770df8a0780a8d2306d9d6b86d312d8
      else 0)"

definition demo_engine :: engine where
  "demo_engine =
     \<lparr> checkSignatures = (\<lambda>requestId cleartexts proof'. proof' \<noteq> []),
       decode_int32_array = (\<lambda>cleartexts. Some (map scast cleartexts)),
       decode_uint32 = (\<lambda>cleartexts. case cleartexts of [b] \<Rightarrow> Some (ucast b) | _ \<Rightarrow> None),
       keccak256_packed = demo_keccak,
       isInitialized = (\<lambda>h. h \<noteq> 0),
       asEuint32 = (\<lambda>n. demo_tag OR ucast n),
       fhe_add = (\<lambda>a b. Some (demo_tag OR ucast (ucast a + ucast b :: 32 word))),
       requestDecryption = (\<lambda>handles sel next. Some next) \<rparr>"

definition demo_decrypt :: "euint32 \<Rightarrow> uint32" where
  "demo_decrypt h = ucast h"

definition ctx0 :: call_context where
  "ctx0 = \<lparr> msg_sender = 0xA11CE, block_timestamp = 1000 \<rparr>"

definition ctx1 :: call_context where
  "ctx1 = \<lparr> msg_sender = 0xB0B, block_timestamp = 1000 \<rparr>"

text \<open>
  One measurement is submitted and two decryption requests, 7 and 8, are issued for it
  while it is pending.
\<close>

definition history_pending :: "(call_context \<times> call) list" where
  "history_pending =
     [(ctx0, SubmitEncryptedMeasurement 11 12),
      (ctx0, RequestMeasurementDecryption 1 7),
      (ctx0, RequestMeasurementDecryption 1 8)]"

definition storage_pending :: storage where
  "storage_pending = run demo_engine history_pending init_storage"

text \<open>Then the callback of request 7 delivers temperature 10 and gas level 3.\<close>

definition storage_decrypted :: storage where
  "storage_decrypted =
     transact demo_engine (ctx0, DecryptMeasurement 7 [10, 3] [1]) storage_pending"

text \<open>After that, a decryption of the aggregate of "HighRisk" is requested as request 9.\<close>

definition storage_zone_requested :: storage where
  "storage_zone_requested =
     transact demo_engine (ctx0, RequestZoneRiskDecryption ''HighRisk'' 9) storage_decrypted"

subsection \<open>An engine with access control\<close>

text \<open>
  A second stand-in, which refuses handles as an access-controlled library does for a
  contract that never asks to be allowed on the handles it stores.
  \<^item> The contract is allowed on the handles 11, 12, 13 and 14, which their submitters
    shared with it, and on no other stored handle.
  \<^item> A trivial encryption (bit 32 set) is usable in the transaction that makes it. The
    result of an addition has bit 33 set instead; read back from storage in a later
    transaction it is not usable.
  \<^item> \<open>FHE.add\<close> returns when both operands are usable, \<open>FHE.requestDecryption\<close> when
    the contract is allowed on every handle.
  \<^item> The verifier accepts, with the proof \<open>[1]\<close>, one cleartext per request: 10 and 3
    for the requests 7 and 8 (the handles 11 and 12), 12 and 0 for request 5 (the handles
    13 and 14), and nothing for any other request.
\<close>

definition acl_allowed :: "euint32 \<Rightarrow> bool" where
  "acl_allowed h = (h = 11 \<or> h = 12 \<or> h = 13 \<or> h = 14)"

definition acl_usable :: "euint32 \<Rightarrow> bool" where
  "acl_usable h = (acl_allowed h \<or> h AND demo_tag \<noteq> 0)"

definition sum_tag :: euint32 where
  "sum_tag = push_bit 33 1"

definition acl_signed :: "uint256 \<Rightarrow> bytes" where
  "acl_signed r = (if r = 7 \<or> r = 8 then [10, 3] else if r = 5 then [12, 0] else [])"

definition acl_engine :: engine where
  "acl_engine =
     \<lparr> checkSignatures =
         (\<lambda>requestId cleartexts proof'.
            proof' = [1] \<and> cleartexts \<noteq> [] \<and> cleartexts = acl_signed requestId),
       decode_int32_array = (\<lambda>cleartexts. Some (map scast cleartexts)),
       decode_uint32 = (\<lambda>cleartexts. case cleartexts of [b] \<Rightarrow> Some (ucast b) | _ \<Rightarrow> None),
       keccak256_packed = demo_keccak,
       isInitialized = (\<lambda>h. h \<noteq> 0),
       asEuint32 = (\<lambda>n. demo_tag OR ucast n),
       fhe_add =
         (\<lambda>a b. if acl_usable a \<and> acl_usable b
                then Some (sum_tag OR ucast (ucast a + ucast b :: 32 word))
                else None),
       requestDecryption =
         (\<lambda>handles sel next. if list_all acl_allowed handles then Some next else None) \<rparr>"

text \<open>
  Two measurements are submitted with handles the contract is allowed on, and a third with
  handles it is not allowed on. Requests 7 and 8 are issued for the first measurement and
  request 5 for the second.
\<close>

definition acl_history :: "(call_context \<times> call) list" where
  "acl_history =
     [(ctx0, SubmitEncryptedMeasurement 11 12),
      (ctx1, SubmitEncryptedMeasurement 13 14),
      (ctx1, SubmitEncryptedMeasurement 21 22),
      (ctx0, RequestMeasurementDecryption 1 7),
      (ctx0, RequestMeasurementDecryption 1 8),
      (ctx1, RequestMeasurementDecryption 2 5)]"

definition acl_pending :: storage where
  "acl_pending = run acl_engine acl_history init_storage"

text \<open>Then the callback of request 7 delivers the plaintexts 10 and 3 of measurement 1.\<close>

definition acl_decrypted :: storage where
  "acl_decrypted = transact acl_engine (ctx0, DecryptMeasurement 7 [10, 3] [1]) acl_pending"


section \<open>Facts about single calls\<close>

lemmas model_defs = transact_def
  submitEncryptedMeasurement_def requestMeasurementDecryption_def onlyResearcher_def
  decryptMeasurement_def contribute_def assignZone_def requestZoneRiskDecryption_def
  decryptZoneRisk_def getZoneFromHash_def bytes32ToUint_def toBytes32_def Let_def

lemmas demo_defs = demo_tag_def demo_engine_def demo_keccak_def ctx0_def ctx1_def init_storage_def
  history_pending_def storage_pending_def storage_decrypted_def storage_zone_requested_def
  demo_decrypt_def

lemmas acl_defs = demo_tag_def sum_tag_def acl_engine_def acl_allowed_def acl_usable_def
  acl_signed_def demo_keccak_def ctx0_def ctx1_def init_storage_def acl_history_def
  acl_pending_def acl_decrypted_def demo_decrypt_def

lemma contribute_Some:
  assumes "contribute eng z s = Some s1"
  shows "requestToMeasurementId s1 = requestToMeasurementId s"
    and "measurementCount s1 = measurementCount s"
    and "encryptedMeasurements s1 = encryptedMeasurements s"
    and "decryptedMeasurements s1 = decryptedMeasurements s"
    and "events s1 = events s"
  using assms by (auto simp: contribute_def Let_def split: option.splits if_splits)

lemma decryptMeasurement_Inr_iff:
  "(decryptMeasurement eng r c p s = Inr s') =
     (requestToMeasurementId s r \<noteq> 0 \<and> checkSignatures eng r c p
      \<and> (\<exists>t g rest s2. decode_int32_array eng c = Some (t # g # rest)
           \<and> contribute eng (assignZone t g)
                (s\<lparr>decryptedMeasurements := (decryptedMeasurements s)
                   (requestToMeasurementId s r :=
                      \<lparr>temperature = t, gasLevel = g, isDecrypted = True\<rparr>)\<rparr>) = Some s2
           \<and> s' = s2\<lparr>events := events s2 @ [MeasurementDecrypted (requestToMeasurementId s r)]\<rparr>))"
  by (auto simp: decryptMeasurement_def Let_def split: option.splits list.splits)

lemma decryptZoneRisk_Inr: "decryptZoneRisk eng r c p s = Inr s' \<Longrightarrow> s' = s"
  by (auto simp: decryptZoneRisk_def Let_def split: sum.splits if_splits option.splits)

lemma first_callback_ok:
  "decryptMeasurement demo_engine 7 [10, 3] [1] storage_pending = Inr storage_decrypted"
  by (simp add: demo_defs model_defs)

lemma zone_callback_ok:
  "decryptZoneRisk demo_engine 9 [1] [1] storage_zone_requested = Inr storage_zone_requested"
  by (simp add: demo_defs model_defs)

lemma getZoneFromHash_loop_find:
  "getZoneFromHash_loop eng zs h =
     (case List.find (\<lambda>z. bytes32ToUint (keccak256_packed eng z) = h) zs of
        None \<Rightarrow> Inl ZoneNotFound | Some z \<Rightarrow> Inr z)"
  by (induction zs) auto

lemma getZoneFromHash_loop_Inl:
  "(getZoneFromHash_loop eng zs h = Inl e) =
     (e = ZoneNotFound \<and> (\<forall>z \<in> set zs. bytes32ToUint (keccak256_packed eng z) \<noteq> h))"
  by (induction zs) auto

lemma getZoneFromHash_loop_Inr:
  "getZoneFromHash_loop eng zs h = Inr z \<Longrightarrow>
     z \<in> set zs \<and> bytes32ToUint (keccak256_packed eng z) = h"
  by (induction zs) (auto split: if_splits)

lemma decryptZoneRisk_Inl_ZoneNotFound:
  "(decryptZoneRisk eng r c p s = Inl ZoneNotFound) =
     (\<forall>z \<in> set (zoneList s).
        bytes32ToUint (keccak256_packed eng z) \<noteq> requestToMeasurementId s r)"
proof (cases "getZoneFromHash_loop eng (zoneList s) (requestToMeasurementId s r)")
  case (Inl e)
  then show ?thesis
    using getZoneFromHash_loop_Inl [of eng "zoneList s" "requestToMeasurementId s r" e]
    by (simp add: decryptZoneRisk_def getZoneFromHash_def)
next
  case (Inr z)
  then have "z \<in> set (zoneList s)
             \<and> bytes32ToUint (keccak256_packed eng z) = requestToMeasurementId s r"
    by (rule getZoneFromHash_loop_Inr)
  with Inr show ?thesis
    by (auto simp: decryptZoneRisk_def getZoneFromHash_def split: option.splits)
qed

lemma transact_decryptZoneRisk: "transact eng (ctx, DecryptZoneRisk r c p) s = s"
  by (cases "decryptZoneRisk eng r c p s") (auto simp: transact_def dest: decryptZoneRisk_Inr)

lemma acl_first_callback_ok:
  "decryptMeasurement acl_engine 7 [10, 3] [1] acl_pending = Inr acl_decrypted"
  by (simp add: acl_defs model_defs)

lemma decryptMeasurement_replay:
  assumes "decryptMeasurement eng r c p s = Inr s'"
  shows "requestToMeasurementId s' = requestToMeasurementId s"
    and "decryptMeasurement eng r c p s' = Inl LibraryRevert
         \<or> \<not> isl (decryptMeasurement eng r c p s')"
proof -
  from assms obtain t g rest s2 where
    rec: "requestToMeasurementId s r \<noteq> 0" and chk: "checkSignatures eng r c p"
    and dec: "decode_int32_array eng c = Some (t # g # rest)"
    and con: "contribute eng (assignZone t g)
                (s\<lparr>decryptedMeasurements := (decryptedMeasurements s)
                   (requestToMeasurementId s r :=
                      \<lparr>temperature = t, gasLevel = g, isDecrypted = True\<rparr>)\<rparr>) = Some s2"
    and s': "s' = s2\<lparr>events := events s2 @ [MeasurementDecrypted (requestToMeasurementId s r)]\<rparr>"
    by (auto simp: decryptMeasurement_Inr_iff)
  from contribute_Some(1) [OF con] s'
  show keep: "requestToMeasurementId s' = requestToMeasurementId s" by simp
  from keep rec chk dec
  show "decryptMeasurement eng r c p s' = Inl LibraryRevert
        \<or> \<not> isl (decryptMeasurement eng r c p s')"
    by (auto simp: decryptMeasurement_def Let_def split: option.splits)
qed

lemma contribute_None_cong:
  "encryptedZoneRisk s' = encryptedZoneRisk s \<Longrightarrow>
     (contribute eng z s' = None) = (contribute eng z s = None)"
  by (simp add: contribute_def Let_def split: option.splits)

lemma decryptMeasurement_Inl_iff:
  "(decryptMeasurement eng r c p s = Inl e) =
     (if requestToMeasurementId s r = 0 then e = InvalidRequest
      else if \<not> checkSignatures eng r c p then e = InvalidProof
      else case decode_int32_array eng c of
             None \<Rightarrow> e = DecodeFailure
           | Some (t # g # rest) \<Rightarrow>
               e = LibraryRevert \<and> contribute eng (assignZone t g) s = None
           | Some other \<Rightarrow> e = IndexOutOfBounds)"
proof -
  have h: "(contribute eng z
           (s\<lparr>decryptedMeasurements := (decryptedMeasurements s)(m := v)\<rparr>) = None)
        = (contribute eng z s = None)" for z m v
    by (rule contribute_None_cong) simp
  show ?thesis
  proof (cases "requestToMeasurementId s r = 0 \<or> \<not> checkSignatures eng r c p")
    case True
    then show ?thesis by (auto simp: decryptMeasurement_def Let_def)
  next
    case False
    show ?thesis
    proof (cases "decode_int32_array eng c")
      case None
      with False show ?thesis by (auto simp: decryptMeasurement_def Let_def)
    next
      case (Some results)
      show ?thesis
      proof (cases results)
        case Nil
        with False Some show ?thesis by (auto simp: decryptMeasurement_def Let_def)
      next
        case (Cons t rs)
        show ?thesis
        proof (cases rs)
          case Nil
          with False Some Cons show ?thesis by (auto simp: decryptMeasurement_def Let_def)
        next
          case (Cons g rest)
          let ?s1 = "s\<lparr>decryptedMeasurements := (decryptedMeasurements s)
                       (requestToMeasurementId s r :=
                          \<lparr>temperature = t, gasLevel = g, isDecrypted = True\<rparr>)\<rparr>"
          show ?thesis
          proof (cases "contribute eng (assignZone t g) ?s1")
            case None
            with h [of "assignZone t g" "requestToMeasurementId s r"
                "\<lparr>temperature = t, gasLevel = g, isDecrypted = True\<rparr>"]
            have "contribute eng (assignZone t g) s = None" by simp
            with None False Some \<open>results = t # rs\<close> Cons show ?thesis
              by (auto simp: decryptMeasurement_def Let_def)
          next
            case (Some s2)
            with h [of "assignZone t g" "requestToMeasurementId s r"
                "\<lparr>temperature = t, gasLevel = g, isDecrypted = True\<rparr>"]
            have "contribute eng (assignZone t g) s \<noteq> None" by simp
            with Some False \<open>decode_int32_array eng c = Some results\<close>
              \<open>results = t # rs\<close> Cons show ?thesis
              by (auto simp: decryptMeasurement_def Let_def)
          qed
        qed
      qed
    qed
  qed
qed



































section \<open>The classifier\<close>

text \<open>
  C8. \<open>assignZone\<close> is a total function of the two 32-bit signed integers that does not
  look at the gas level: the label is "LowRisk" exactly when the temperature is below -2,
  "MediumRisk" exactly when it is at least -2 and below 2, and "HighRisk" exactly when it
  is at least 2; at the boundaries, -2 is "MediumRisk" and 2 is "HighRisk".
\<close>

theorem assignZone_policy:
  "(assignZone t g = ''LowRisk'') = (sint t < - 2)
   \<and> (assignZone t g = ''MediumRisk'') = (- 2 \<le> sint t \<and> sint t < 2)
   \<and> (assignZone t g = ''HighRisk'') = (2 \<le> sint t)
   \<and> assignZone t g = assignZone t g'
   \<and> assignZone (- 2) g = ''MediumRisk''
   \<and> assignZone 2 g = ''HighRisk''"
  by (auto simp: assignZone_def word_sless_alt)


section \<open>A callback whose proof does not verify\<close>

text \<open>
  C6. When \<open>FHE.checkSignatures\<close> rejects the proof, either callback fails: the
  measurement callback with "Invalid request" or with the verifier's error, the zone
  callback with "Zone not found" or with the verifier's error. In both the verification
  comes before the first write, and the transaction leaves the whole storage as it was:
  no measurement record, no entry of the request mapping, no bucket, no label of the list
  and no event is changed.
\<close>

theorem callback_aborts_on_invalid_proof:
  assumes "\<not> checkSignatures eng r c p"
  shows "(decryptMeasurement eng r c p s = Inl InvalidRequest
            \<or> decryptMeasurement eng r c p s = Inl InvalidProof)
         \<and> (decryptZoneRisk eng r c p s = Inl ZoneNotFound
            \<or> decryptZoneRisk eng r c p s = Inl InvalidProof)
         \<and> transact eng (ctx, DecryptMeasurement r c p) s = s
         \<and> transact eng (ctx, DecryptZoneRisk r c p) s = s"
proof -
  from assms have m: "decryptMeasurement eng r c p s = Inl InvalidRequest
            \<or> decryptMeasurement eng r c p s = Inl InvalidProof"
    by (simp add: decryptMeasurement_def Let_def)
  from assms have z: "decryptZoneRisk eng r c p s = Inl ZoneNotFound
            \<or> decryptZoneRisk eng r c p s = Inl InvalidProof"
  proof (cases "getZoneFromHash_loop eng (zoneList s) (requestToMeasurementId s r)")
    case (Inl e)
    then have "e = ZoneNotFound" by (simp add: getZoneFromHash_loop_Inl)
    with Inl show ?thesis by (simp add: decryptZoneRisk_def getZoneFromHash_def)
  next
    case (Inr zone)
    with assms show ?thesis by (simp add: decryptZoneRisk_def getZoneFromHash_def)
  qed
  from m have tm: "transact eng (ctx, DecryptMeasurement r c p) s = s"
    by (auto simp: transact_def)
  from z have tz: "transact eng (ctx, DecryptZoneRisk r c p) s = s"
    by (auto simp: transact_def)
  from m z tm tz show ?thesis by blast
qed

text \<open>
  The empty proof does not verify. For the recorded requests 8 and 9 both callbacks then
  fail with the verifier's error and the storage is unchanged.
\<close>

theorem callback_aborts_on_invalid_proof_witness:
  "\<not> checkSignatures demo_engine 8 [251, 4] []
   \<and> decryptMeasurement demo_engine 8 [251, 4] [] storage_decrypted = Inl InvalidProof
   \<and> decryptZoneRisk demo_engine 9 [1] [] storage_zone_requested = Inl InvalidProof
   \<and> transact demo_engine (ctx0, DecryptMeasurement 8 [251, 4] []) storage_decrypted
       = storage_decrypted
   \<and> transact demo_engine (ctx0, DecryptZoneRisk 9 [1] []) storage_zone_requested
       = storage_zone_requested"
proof -
  have bad: "\<not> checkSignatures demo_engine 8 [251, 4] []"
    and bad': "\<not> checkSignatures demo_engine 9 [1] []"
    by (simp_all add: demo_engine_def)
  have known: "decryptMeasurement demo_engine 8 [251, 4] [] storage_decrypted \<noteq> Inl InvalidRequest"
    by (simp add: demo_defs model_defs)
  have found: "decryptZoneRisk demo_engine 9 [1] [] storage_zone_requested \<noteq> Inl ZoneNotFound"
    by (simp add: demo_defs model_defs)
  from callback_aborts_on_invalid_proof [OF bad, of storage_decrypted ctx0]
    callback_aborts_on_invalid_proof [OF bad', of storage_zone_requested ctx0]
    bad known found
  show ?thesis by blast
qed

section \<open>Resolving an aggregate decryption\<close>

text \<open>
  C7, as the contract behaves. \<open>decryptZoneRisk\<close> recovers the label by a linear search
  of \<open>zoneList\<close> for the first label whose hash is the number recorded for the
  request, and fails with "Zone not found" exactly when no label has that hash. It does
  not change the storage: the encrypted counter of the bucket, like everything else, is
  what it was. The decrypted count is decoded and then dropped: it is not stored, emitted
  or returned, and two accepted callbacks for the same request with different counts have
  the same result.
\<close>

theorem zone_resolution_discards_count:
  "getZoneFromHash eng s h =
     (case List.find (\<lambda>z. bytes32ToUint (keccak256_packed eng z) = h) (zoneList s) of
        None \<Rightarrow> Inl ZoneNotFound | Some z \<Rightarrow> Inr z)
   \<and> (decryptZoneRisk eng r c p s = Inl ZoneNotFound) =
       (\<forall>z \<in> set (zoneList s).
          bytes32ToUint (keccak256_packed eng z) \<noteq> requestToMeasurementId s r)
   \<and> (decryptZoneRisk eng r c p s = Inr s' \<longrightarrow> s' = s)
   \<and> transact eng (ctx, DecryptZoneRisk r c p) s = s
   \<and> (checkSignatures eng r c p \<and> checkSignatures eng r c' p'
        \<and> decode_uint32 eng c = Some v \<and> decode_uint32 eng c' = Some v'
        \<longrightarrow> decryptZoneRisk eng r c p s = decryptZoneRisk eng r c' p' s)"
proof -
  have 1: "getZoneFromHash eng s h =
     (case List.find (\<lambda>z. bytes32ToUint (keccak256_packed eng z) = h) (zoneList s) of
        None \<Rightarrow> Inl ZoneNotFound | Some z \<Rightarrow> Inr z)"
    by (simp add: getZoneFromHash_def getZoneFromHash_loop_find)
  have 3: "decryptZoneRisk eng r c p s = Inr s' \<longrightarrow> s' = s"
    by (auto dest: decryptZoneRisk_Inr)
  have 5: "checkSignatures eng r c p \<and> checkSignatures eng r c' p'
        \<and> decode_uint32 eng c = Some v \<and> decode_uint32 eng c' = Some v'
        \<longrightarrow> decryptZoneRisk eng r c p s = decryptZoneRisk eng r c' p' s"
    by (auto simp: decryptZoneRisk_def Let_def split: sum.splits)
  from 1 decryptZoneRisk_Inl_ZoneNotFound [of eng r c p s] 3
    transact_decryptZoneRisk [of eng ctx r c p s] 5
  show ?thesis by blast
qed

text \<open>
  In the concrete history the hash recorded for request 9 is found as "HighRisk", the
  callback succeeds without changing the storage, the counts 200 and 3 give the same
  result, and request 7, recorded for measurement 1, matches no label.
\<close>

theorem zone_resolution_discards_count_witness:
  "getZoneFromHash demo_engine storage_zone_requested
      0x92aae4c789fb4429f78cc2a911f8c1d9b770df8a0780a8d2306d9d6b86d312d8 = Inr ''HighRisk''
   \<and> decryptZoneRisk demo_engine 9 [3] [1] storage_zone_requested = Inr storage_zone_requested
   \<and> decryptZoneRisk demo_engine 9 [200] [1] storage_zone_requested
       = decryptZoneRisk demo_engine 9 [3] [1] storage_zone_requested
   \<and> decryptZoneRisk demo_engine 7 [3] [1] storage_zone_requested = Inl ZoneNotFound"
proof -
  have zl: "zoneList storage_zone_requested = [''HighRisk'']"
    by (simp add: demo_defs model_defs)
  have r7: "requestToMeasurementId storage_zone_requested 7 = 1"
    by (simp add: demo_defs model_defs)
  have kh: "keccak256_packed demo_engine ''HighRisk'' =
            0x92aae4c789fb4429f78cc2a911f8c1d9b770df8a0780a8d2306d9d6b86d312d8"
    by (simp add: demo_engine_def demo_keccak_def)
  have none: "\<forall>z \<in> set (zoneList storage_zone_requested).
      bytes32ToUint (keccak256_packed demo_engine z) \<noteq> requestToMeasurementId storage_zone_requested 7"
    by (simp add: zl r7 kh bytes32ToUint_def)
  have ok: "decryptZoneRisk demo_engine 9 [3] [1] storage_zone_requested = Inr storage_zone_requested"
    by (simp add: demo_defs model_defs)
  have pre: "checkSignatures demo_engine 9 [200] [1] \<and> checkSignatures demo_engine 9 [3] [1]
        \<and> decode_uint32 demo_engine [200] = Some 200 \<and> decode_uint32 demo_engine [3] = Some 3"
    by (simp add: demo_engine_def)
  note a = zone_resolution_discards_count [of demo_engine storage_zone_requested
      "0x92aae4c789fb4429f78cc2a911f8c1d9b770df8a0780a8d2306d9d6b86d312d8"
      9 "[200]" "[1]" storage_zone_requested ctx0 "[3]" "[1]" 200 3]
  note b = zone_resolution_discards_count [of demo_engine storage_zone_requested 0 7 "[3]" "[1]"]
  from a have 1: "getZoneFromHash demo_engine storage_zone_requested
      0x92aae4c789fb4429f78cc2a911f8c1d9b770df8a0780a8d2306d9d6b86d312d8 = Inr ''HighRisk''"
    by (simp add: zl kh bytes32ToUint_def)
  from a pre have 2: "decryptZoneRisk demo_engine 9 [200] [1] storage_zone_requested
       = decryptZoneRisk demo_engine 9 [3] [1] storage_zone_requested"
    by blast
  from b none have 3: "decryptZoneRisk demo_engine 7 [3] [1] storage_zone_requested = Inl ZoneNotFound"
    by blast
  from 1 2 3 ok show ?thesis by blast
qed

text \<open>
  C7, as stated, fails where it says that the decrypted count is exposed for reading.
  The callbacks delivering the counts 3 and 200 for request 9 both succeed and both leave
  the storage exactly as it was, so nothing that can be read afterwards depends on the
  count.
\<close>

theorem zone_count_not_exposed_counterexample:
  "decode_uint32 demo_engine [3] = Some 3
   \<and> decode_uint32 demo_engine [200] = Some 200
   \<and> decryptZoneRisk demo_engine 9 [3] [1] storage_zone_requested = Inr storage_zone_requested
   \<and> decryptZoneRisk demo_engine 9 [200] [1] storage_zone_requested = Inr storage_zone_requested"
  by (simp add: demo_defs model_defs)

section \<open>The caller\<close>

text \<open>
  C10. No call depends on who makes it. The modifier \<open>onlyResearcher\<close> is its body;
  the result of every entry point, failure or new storage, is the same for every
  \<open>msg.sender\<close>; and two sequences of transactions that differ only in their callers
  end in the same storage.
\<close>

theorem caller_is_irrelevant:
  "onlyResearcher ctx m body = body
   \<and> exec eng (ctx\<lparr>msg_sender := a\<rparr>) c s = exec eng ctx c s
   \<and> transact eng (ctx\<lparr>msg_sender := a\<rparr>, c) s = transact eng (ctx, c) s
   \<and> (list_all2 same_but_caller txs txs' \<longrightarrow> run eng txs s = run eng txs' s)"
proof -
  have ex: "exec eng c1 k t = exec eng c2 k t"
    if "block_timestamp c1 = block_timestamp c2" for c1 c2 k t
    using that
    by (cases k)
       (simp_all add: submitEncryptedMeasurement_def requestMeasurementDecryption_def
          onlyResearcher_def)
  have tr: "transact eng tx t = transact eng tx' t" if "same_but_caller tx tx'" for tx tx' t
    using that ex [of "fst tx" "fst tx'" "snd tx" t]
    by (simp add: transact_def same_but_caller_def)
  have rn: "list_all2 same_but_caller txs txs' \<Longrightarrow> run eng txs t = run eng txs' t" for t
  proof (induction txs txs' arbitrary: t rule: list_all2_induct)
    case Nil
    show ?case by simp
  next
    case (Cons tx txs tx' txs')
    then show ?case by (simp add: tr)
  qed
  have 2: "exec eng (ctx\<lparr>msg_sender := a\<rparr>) c s = exec eng ctx c s"
    by (rule ex) simp
  then have 3: "transact eng (ctx\<lparr>msg_sender := a\<rparr>, c) s = transact eng (ctx, c) s"
    by (simp add: transact_def)
  from 2 3 rn show ?thesis by (simp add: onlyResearcher_def)
qed

text \<open>
  The same three calls, made by one account or shared between two, end in the same
  storage.
\<close>

theorem caller_is_irrelevant_witness:
  "list_all2 same_but_caller
     [(ctx0, SubmitEncryptedMeasurement 11 12), (ctx0, RequestMeasurementDecryption 1 7),
      (ctx0, DecryptMeasurement 7 [10, 3] [1])]
     [(ctx1, SubmitEncryptedMeasurement 11 12), (ctx0, RequestMeasurementDecryption 1 7),
      (ctx1, DecryptMeasurement 7 [10, 3] [1])]
   \<and> run demo_engine
        [(ctx0, SubmitEncryptedMeasurement 11 12), (ctx0, RequestMeasurementDecryption 1 7),
         (ctx0, DecryptMeasurement 7 [10, 3] [1])] init_storage
     = run demo_engine
        [(ctx1, SubmitEncryptedMeasurement 11 12), (ctx0, RequestMeasurementDecryption 1 7),
         (ctx1, DecryptMeasurement 7 [10, 3] [1])] init_storage"
proof -
  have same: "list_all2 same_but_caller
     [(ctx0, SubmitEncryptedMeasurement 11 12), (ctx0, RequestMeasurementDecryption 1 7),
      (ctx0, DecryptMeasurement 7 [10, 3] [1])]
     [(ctx1, SubmitEncryptedMeasurement 11 12), (ctx0, RequestMeasurementDecryption 1 7),
      (ctx1, DecryptMeasurement 7 [10, 3] [1])]"
    by (simp add: same_but_caller_def ctx0_def ctx1_def)
  with caller_is_irrelevant [of ctx0 0 "Inl InvalidProof" demo_engine 0
      "SubmitEncryptedMeasurement 11 12" init_storage
      "[(ctx0, SubmitEncryptedMeasurement 11 12), (ctx0, RequestMeasurementDecryption 1 7),
        (ctx0, DecryptMeasurement 7 [10, 3] [1])]"
      "[(ctx1, SubmitEncryptedMeasurement 11 12), (ctx0, RequestMeasurementDecryption 1 7),
        (ctx1, DecryptMeasurement 7 [10, 3] [1])]"]
  show ?thesis by blast
qed

section \<open>The request mapping\<close>

text \<open>
  C1, as the contract behaves. Resolution is not one-shot. The measurement callback
  rejects a request identifier as unknown (revert "Invalid request") when the value
  recorded for it is 0. No callback removes or changes an entry of
  \<open>requestToMeasurementId\<close>: after \<open>decryptMeasurement\<close> or \<open>decryptZoneRisk\<close> has
  processed a callback, the mapping is what it was, so a second callback with the same
  request identifier, cleartexts and proof is not rejected as unknown. A repeated
  measurement callback is processed again unless the library call \<open>FHE.add\<close> reverts;
  a repeated zone callback is processed again.
\<close>

theorem callback_keeps_request:
  "(requestToMeasurementId s r = 0 \<longrightarrow> decryptMeasurement eng r c p s = Inl InvalidRequest)
   \<and> (decryptMeasurement eng r c p s = Inr s' \<longrightarrow>
        requestToMeasurementId s' = requestToMeasurementId s
        \<and> decryptMeasurement eng r c p s' \<noteq> Inl InvalidRequest
        \<and> (decryptMeasurement eng r c p s' = Inl LibraryRevert
            \<or> \<not> isl (decryptMeasurement eng r c p s')))
   \<and> (decryptZoneRisk eng r c p s = Inr s' \<longrightarrow>
        requestToMeasurementId s' = requestToMeasurementId s
        \<and> \<not> isl (decryptZoneRisk eng r c p s'))"
proof (intro conjI impI)
  assume "requestToMeasurementId s r = 0"
  then show "decryptMeasurement eng r c p s = Inl InvalidRequest"
    by (simp add: decryptMeasurement_def)
next
  assume ok: "decryptMeasurement eng r c p s = Inr s'"
  from decryptMeasurement_replay(1) [OF ok]
  show "requestToMeasurementId s' = requestToMeasurementId s" .
  from decryptMeasurement_replay(2) [OF ok]
  show again: "decryptMeasurement eng r c p s' = Inl LibraryRevert
        \<or> \<not> isl (decryptMeasurement eng r c p s')" .
  then show "decryptMeasurement eng r c p s' \<noteq> Inl InvalidRequest" by auto
next
  assume ok: "decryptZoneRisk eng r c p s = Inr s'"
  then have same: "s' = s" by (rule decryptZoneRisk_Inr)
  then show "requestToMeasurementId s' = requestToMeasurementId s" by simp
  from ok same show "\<not> isl (decryptZoneRisk eng r c p s')" by simp
qed

text \<open>
  Request 6 was never issued and is rejected as unknown. After the callback of request 7
  the request is still recorded for measurement 1 and its repetition is not rejected as
  unknown, with either engine; where every library call returns it is processed again,
  and so is the zone callback of request 9.
\<close>

theorem callback_keeps_request_witness:
  "decryptMeasurement acl_engine 6 [10, 3] [1] acl_pending = Inl InvalidRequest
   \<and> requestToMeasurementId acl_decrypted 7 = 1
   \<and> decryptMeasurement acl_engine 7 [10, 3] [1] acl_decrypted \<noteq> Inl InvalidRequest
   \<and> \<not> isl (decryptMeasurement demo_engine 7 [10, 3] [1] storage_decrypted)
   \<and> \<not> isl (decryptZoneRisk demo_engine 9 [1] [1] storage_zone_requested)"
proof -
  have unknown: "requestToMeasurementId acl_pending 6 = 0"
    by (simp add: acl_defs model_defs)
  have seven: "requestToMeasurementId acl_pending 7 = 1"
    by (simp add: acl_defs model_defs)
  have no_revert: "decryptMeasurement demo_engine 7 [10, 3] [1] storage_decrypted \<noteq> Inl LibraryRevert"
    by (simp add: demo_defs model_defs)
  note a = callback_keeps_request [of acl_pending 6 acl_engine "[10, 3]" "[1]" acl_pending]
  note b = callback_keeps_request [of acl_pending 7 acl_engine "[10, 3]" "[1]" acl_decrypted]
  note c = callback_keeps_request [of storage_zone_requested 9 demo_engine "[1]" "[1]"
      storage_zone_requested]
  note d = callback_keeps_request [of storage_pending 7 demo_engine "[10, 3]" "[1]"
      storage_decrypted]
  from a unknown
  have 1: "decryptMeasurement acl_engine 6 [10, 3] [1] acl_pending = Inl InvalidRequest"
    by blast
  from b acl_first_callback_ok seven
  have 2: "requestToMeasurementId acl_decrypted 7 = 1
           \<and> decryptMeasurement acl_engine 7 [10, 3] [1] acl_decrypted \<noteq> Inl InvalidRequest"
    by simp
  from c zone_callback_ok
  have 3: "\<not> isl (decryptZoneRisk demo_engine 9 [1] [1] storage_zone_requested)"
    by blast
  from d first_callback_ok no_revert
  have 4: "\<not> isl (decryptMeasurement demo_engine 7 [10, 3] [1] storage_decrypted)"
    by blast
  from 1 2 3 4 show ?thesis by blast
qed

text \<open>
  C1, as stated, fails. With the access-controlled engine the callback of request 7
  decrypts measurement 1. Afterwards request 7 is still recorded for measurement 1, and
  the same callback again is not rejected as an unknown request: it passes the request
  check and the verification and stops only at the addition to the bucket that the first
  callback stored, which the library refuses.
\<close>

theorem replayed_callback_counterexample:
  "decryptMeasurement acl_engine 7 [10, 3] [1] acl_pending = Inr acl_decrypted
   \<and> isDecrypted (decryptedMeasurements acl_decrypted 1)
   \<and> requestToMeasurementId acl_decrypted 7 = 1
   \<and> decryptMeasurement acl_engine 7 [10, 3] [1] acl_decrypted = Inl LibraryRevert
   \<and> decryptMeasurement acl_engine 7 [10, 3] [1] acl_decrypted \<noteq> Inl InvalidRequest"
  by (simp add: acl_defs model_defs)

section \<open>Applying a measurement decryption\<close>

text \<open>
  C2, as the contract behaves. \<open>decryptMeasurement\<close> never fails with "Already
  decrypted" and has no check that the measurement exists: whether and how it fails does
  not depend on the decrypted records or on the number of measurements. Whenever the
  value recorded for the request identifier is not 0, the proof verifies and the
  cleartexts decode to at least two integers, the call fails exactly when the library
  refuses the addition to the bucket of the delivered values, and then with the library's
  error; when the addition returns, the call succeeds and stores the two integers with
  \<open>isDecrypted = true\<close> under the recorded value, whatever the record held before.
\<close>

theorem decryptMeasurement_overwrites:
  "decryptMeasurement eng r c p s \<noteq> Inl AlreadyDecrypted
   \<and> (decryptMeasurement eng r c p (s\<lparr>decryptedMeasurements := d, measurementCount := n\<rparr>) = Inl e)
       = (decryptMeasurement eng r c p s = Inl e)
   \<and> (requestToMeasurementId s r \<noteq> 0 \<and> checkSignatures eng r c p
        \<and> decode_int32_array eng c = Some (t # g # rest) \<longrightarrow>
        (decryptMeasurement eng r c p s = Inl LibraryRevert)
          = (contribute eng (assignZone t g) s = None)
        \<and> (contribute eng (assignZone t g) s \<noteq> None \<longrightarrow>
             (\<exists>s'. decryptMeasurement eng r c p s = Inr s'
                \<and> decryptedMeasurements s' (requestToMeasurementId s r) =
                    \<lparr>temperature = t, gasLevel = g, isDecrypted = True\<rparr>)))"
proof -
  have 1: "decryptMeasurement eng r c p s \<noteq> Inl AlreadyDecrypted"
    by (auto simp: decryptMeasurement_Inl_iff split: option.splits list.splits)
  have same: "(contribute eng z (s\<lparr>decryptedMeasurements := d, measurementCount := n\<rparr>) = None)
              = (contribute eng z s = None)" for z
    by (rule contribute_None_cong) simp
  have 2: "(decryptMeasurement eng r c p (s\<lparr>decryptedMeasurements := d, measurementCount := n\<rparr>) = Inl e)
       = (decryptMeasurement eng r c p s = Inl e)"
    unfolding decryptMeasurement_Inl_iff same by simp
  have 3: "requestToMeasurementId s r \<noteq> 0 \<and> checkSignatures eng r c p
        \<and> decode_int32_array eng c = Some (t # g # rest) \<longrightarrow>
        (decryptMeasurement eng r c p s = Inl LibraryRevert)
          = (contribute eng (assignZone t g) s = None)
        \<and> (contribute eng (assignZone t g) s \<noteq> None \<longrightarrow>
             (\<exists>s'. decryptMeasurement eng r c p s = Inr s'
                \<and> decryptedMeasurements s' (requestToMeasurementId s r) =
                    \<lparr>temperature = t, gasLevel = g, isDecrypted = True\<rparr>))"
  proof (intro impI conjI)
    assume pre: "requestToMeasurementId s r \<noteq> 0 \<and> checkSignatures eng r c p
        \<and> decode_int32_array eng c = Some (t # g # rest)"
    then show "(decryptMeasurement eng r c p s = Inl LibraryRevert)
          = (contribute eng (assignZone t g) s = None)"
      by (simp add: decryptMeasurement_Inl_iff)
    assume ret: "contribute eng (assignZone t g) s \<noteq> None"
    let ?s1 = "s\<lparr>decryptedMeasurements := (decryptedMeasurements s)
                 (requestToMeasurementId s r :=
                    \<lparr>temperature = t, gasLevel = g, isDecrypted = True\<rparr>)\<rparr>"
    have "(contribute eng (assignZone t g) ?s1 = None) = (contribute eng (assignZone t g) s = None)"
      by (rule contribute_None_cong) simp
    with ret obtain s2 where s2: "contribute eng (assignZone t g) ?s1 = Some s2" by auto
    from contribute_Some(4) [OF s2]
    have "decryptedMeasurements s2 (requestToMeasurementId s r)
          = \<lparr>temperature = t, gasLevel = g, isDecrypted = True\<rparr>"
      by simp
    with pre s2 show "\<exists>s'. decryptMeasurement eng r c p s = Inr s'
                \<and> decryptedMeasurements s' (requestToMeasurementId s r) =
                    \<lparr>temperature = t, gasLevel = g, isDecrypted = True\<rparr>"
      by (simp add: decryptMeasurement_def Let_def)
  qed
  from 1 2 3 show ?thesis by blast
qed

text \<open>
  The hypotheses hold for request 8 once measurement 1 is decrypted. With the
  access-controlled engine the addition is refused and the callback fails with the
  library's error; where every library call returns, the callback succeeds and stores the
  delivered values again.
\<close>

theorem decryptMeasurement_overwrites_witness:
  "decryptMeasurement acl_engine 8 [10, 3] [1] acl_decrypted \<noteq> Inl AlreadyDecrypted
   \<and> decryptMeasurement acl_engine 8 [10, 3] [1] acl_decrypted = Inl LibraryRevert
   \<and> (\<exists>s'. decryptMeasurement demo_engine 8 [10, 3] [1] storage_decrypted = Inr s'
         \<and> decryptedMeasurements s' 1 = \<lparr>temperature = 10, gasLevel = 3, isDecrypted = True\<rparr>)"
proof -
  have eight: "requestToMeasurementId acl_decrypted 8 = 1"
    by (simp add: acl_defs model_defs)
  have pre: "requestToMeasurementId acl_decrypted 8 \<noteq> 0
        \<and> checkSignatures acl_engine 8 [10, 3] [1]
        \<and> decode_int32_array acl_engine [10, 3] = Some ([10, 3] @ [])"
    by (simp add: eight) (simp add: acl_engine_def acl_signed_def)
  have refused: "contribute acl_engine (assignZone 10 3) acl_decrypted = None"
    by (simp add: acl_defs model_defs)
  have eight': "requestToMeasurementId storage_decrypted 8 = 1"
    by (simp add: demo_defs model_defs)
  have pre': "requestToMeasurementId storage_decrypted 8 \<noteq> 0
        \<and> checkSignatures demo_engine 8 [10, 3] [1]
        \<and> decode_int32_array demo_engine [10, 3] = Some ([10, 3] @ [])"
    by (simp add: eight') (simp add: demo_engine_def)
  have returns: "contribute demo_engine (assignZone 10 3) storage_decrypted \<noteq> None"
    by (simp add: demo_defs model_defs)
  note a = decryptMeasurement_overwrites [of acl_engine 8 "[10, 3]" "[1]" acl_decrypted
      _ _ _ 10 3 "[]"]
  note b = decryptMeasurement_overwrites [of demo_engine 8 "[10, 3]" "[1]" storage_decrypted
      _ _ _ 10 3 "[]"]
  from a pre refused
  have 1: "decryptMeasurement acl_engine 8 [10, 3] [1] acl_decrypted \<noteq> Inl AlreadyDecrypted
           \<and> decryptMeasurement acl_engine 8 [10, 3] [1] acl_decrypted = Inl LibraryRevert"
    by simp
  from b pre' returns eight'
  have 2: "\<exists>s'. decryptMeasurement demo_engine 8 [10, 3] [1] storage_decrypted = Inr s'
         \<and> decryptedMeasurements s' 1 = \<lparr>temperature = 10, gasLevel = 3, isDecrypted = True\<rparr>"
    by simp
  from 1 2 show ?thesis by blast
qed

text \<open>
  C2, as stated, fails. With the access-controlled engine measurement 1 is decrypted with
  temperature 10 and gas level 3, and request 8 is recorded for it. The callback of
  request 8 with the same attested values and a proof that verifies does not fail with
  "Already decrypted": it fails in the library, at the addition to the stored bucket.
\<close>

theorem second_decryption_counterexample:
  "decryptedMeasurements acl_decrypted 1 =
     \<lparr>temperature = 10, gasLevel = 3, isDecrypted = True\<rparr>
   \<and> requestToMeasurementId acl_decrypted 8 = 1
   \<and> checkSignatures acl_engine 8 [10, 3] [1]
   \<and> decryptMeasurement acl_engine 8 [10, 3] [1] acl_decrypted = Inl LibraryRevert
   \<and> decryptMeasurement acl_engine 8 [10, 3] [1] acl_decrypted \<noteq> Inl AlreadyDecrypted"
  by (simp add: acl_defs model_defs)

section \<open>The life of a measurement record\<close>



section \<open>Requesting a measurement decryption\<close>

text \<open>
  C5, as the contract behaves. \<open>requestMeasurementDecryption\<close> fails with "Already
  decrypted" exactly when the record under \<open>measurementId\<close> is decrypted. Otherwise it
  has no check of its own that the measurement exists: it hands the two handles stored
  under \<open>measurementId\<close> (zero handles if no submission assigned it) to
  \<open>FHE.requestDecryption\<close>, fails with the library's error when that call reverts, and
  otherwise records the returned request identifier for \<open>measurementId\<close> and emits
  \<open>DecryptionRequested\<close>. It has no return value.
\<close>

theorem requestMeasurementDecryption_result:
  "(requestMeasurementDecryption eng ctx m next s = Inl e) =
     (if isDecrypted (decryptedMeasurements s m) then e = AlreadyDecrypted
      else e = LibraryRevert
           \<and> requestDecryption eng
                [toBytes32 (encryptedTemperature (encryptedMeasurements s m)),
                 toBytes32 (encryptedGasLevel (encryptedMeasurements s m))]
                DecryptMeasurementSelector next = None)
   \<and> (requestMeasurementDecryption eng ctx m next s = Inr s') =
       (\<not> isDecrypted (decryptedMeasurements s m)
        \<and> (\<exists>reqId. requestDecryption eng
                [toBytes32 (encryptedTemperature (encryptedMeasurements s m)),
                 toBytes32 (encryptedGasLevel (encryptedMeasurements s m))]
                DecryptMeasurementSelector next = Some reqId
              \<and> s' = s\<lparr> requestToMeasurementId := (requestToMeasurementId s)(reqId := m),
                         events := events s @ [DecryptionRequested m] \<rparr>))"
  by (auto simp: requestMeasurementDecryption_def onlyResearcher_def Let_def split: option.splits)

text \<open>
  C5, as stated, fails. With the access-controlled engine measurement 3 exists and is
  pending, but the contract is not allowed on its handles 21 and 22: the request does not
  succeed, it fails in \<open>FHE.requestDecryption\<close>.
\<close>

theorem request_refused_counterexample:
  "created acl_pending 3
   \<and> encryptedMeasurements acl_pending 3
       = \<lparr>id_m = 3, encryptedTemperature = 21, encryptedGasLevel = 22, timestamp = 1000\<rparr>
   \<and> \<not> isDecrypted (decryptedMeasurements acl_pending 3)
   \<and> requestMeasurementDecryption acl_engine ctx1 3 9 acl_pending = Inl LibraryRevert"
  by (simp add: created_def acl_defs model_defs)

section \<open>Contributions to a zone\<close>




end
